theory Spec2Isabelle
  imports Complex_Main
begin

section \<open>JavaScript numbers\<close>

text \<open>
  The dashboard is JavaScript; every number in it is an IEEE 754 double. A number is
  modelled as \<open>NaN\<close>, one of the two infinities, or a finite value. Finite values are
  exact reals: rounding error, overflow of finite arithmetic and the sign of zero are
  not modelled. The special values follow the IEEE rules that JavaScript uses.
\<close>

datatype jsnum = NaN | NInf | Fin real | PInf

fun isNaN :: "jsnum \<Rightarrow> bool" where
  "isNaN NaN = True"
| "isNaN _ = False"

fun isFinite :: "jsnum \<Rightarrow> bool" where
  "isFinite (Fin _) = True"
| "isFinite _ = False"

text \<open>Truthiness of a number: \<open>0\<close> and \<open>NaN\<close> are falsy.\<close>

fun truthy :: "jsnum \<Rightarrow> bool" where
  "truthy NaN = False"
| "truthy (Fin x) = (x \<noteq> 0)"
| "truthy _ = True"

text \<open>
  \<open>field || d\<close> for a numeric field that may be missing, \<open>undefined\<close> or \<open>null\<close>
  (\<open>None\<close>): the default is taken for every falsy value.
\<close>

fun js_or :: "jsnum option \<Rightarrow> jsnum \<Rightarrow> jsnum" where
  "js_or None d = d"
| "js_or (Some x) d = (if truthy x then x else d)"

text \<open>Strict equality \<open>===\<close> on numbers: \<open>NaN\<close> equals nothing.\<close>

definition js_seq :: "jsnum \<Rightarrow> jsnum \<Rightarrow> bool" where
  "js_seq a b = (\<not> isNaN a \<and> \<not> isNaN b \<and> a = b)"

fun js_lt :: "jsnum \<Rightarrow> jsnum \<Rightarrow> bool" where
  "js_lt NaN _ = False"
| "js_lt _ NaN = False"
| "js_lt (Fin a) (Fin b) = (a < b)"
| "js_lt NInf NInf = False"
| "js_lt NInf _ = True"
| "js_lt _ NInf = False"
| "js_lt PInf _ = False"
| "js_lt _ PInf = True"

definition js_gt :: "jsnum \<Rightarrow> jsnum \<Rightarrow> bool" where
  "js_gt a b = js_lt b a"

definition js_le :: "jsnum \<Rightarrow> jsnum \<Rightarrow> bool" where
  "js_le a b = (\<not> isNaN a \<and> \<not> isNaN b \<and> \<not> js_lt b a)"

fun js_neg :: "jsnum \<Rightarrow> jsnum" where
  "js_neg NaN = NaN"
| "js_neg NInf = PInf"
| "js_neg (Fin a) = Fin (- a)"
| "js_neg PInf = NInf"

fun js_add :: "jsnum \<Rightarrow> jsnum \<Rightarrow> jsnum" where
  "js_add NaN _ = NaN"
| "js_add _ NaN = NaN"
| "js_add (Fin a) (Fin b) = Fin (a + b)"
| "js_add PInf NInf = NaN"
| "js_add NInf PInf = NaN"
| "js_add (Fin a) b = b"
| "js_add a _ = a"

definition js_sub :: "jsnum \<Rightarrow> jsnum \<Rightarrow> jsnum" where
  "js_sub a b = js_add a (js_neg b)"

text \<open>The sign of an infinite product or quotient; a zero counts as positive.\<close>

definition inf_of_sign :: "bool \<Rightarrow> jsnum" where
  "inf_of_sign neg = (if neg then NInf else PInf)"

fun js_mul :: "jsnum \<Rightarrow> jsnum \<Rightarrow> jsnum" where
  "js_mul NaN _ = NaN"
| "js_mul _ NaN = NaN"
| "js_mul (Fin a) (Fin b) = Fin (a * b)"
| "js_mul (Fin a) PInf = (if a = 0 then NaN else inf_of_sign (a < 0))"
| "js_mul (Fin a) NInf = (if a = 0 then NaN else inf_of_sign (0 < a))"
| "js_mul PInf (Fin b) = (if b = 0 then NaN else inf_of_sign (b < 0))"
| "js_mul NInf (Fin b) = (if b = 0 then NaN else inf_of_sign (0 < b))"
| "js_mul PInf PInf = PInf"
| "js_mul NInf NInf = PInf"
| "js_mul PInf NInf = NInf"
| "js_mul NInf PInf = NInf"

fun js_div :: "jsnum \<Rightarrow> jsnum \<Rightarrow> jsnum" where
  "js_div NaN _ = NaN"
| "js_div _ NaN = NaN"
| "js_div (Fin a) (Fin b) =
     (if b = 0 then (if a = 0 then NaN else inf_of_sign (a < 0)) else Fin (a / b))"
| "js_div (Fin a) _ = Fin 0"
| "js_div PInf (Fin b) = inf_of_sign (b < 0)"
| "js_div NInf (Fin b) = inf_of_sign (0 \<le> b)"
| "js_div _ _ = NaN"

text \<open>\<open>Math.max\<close> and \<open>Math.min\<close> of two arguments: \<open>NaN\<close> if either is.\<close>

definition Math_max :: "jsnum \<Rightarrow> jsnum \<Rightarrow> jsnum" where
  "Math_max a b = (if isNaN a \<or> isNaN b then NaN else if js_lt a b then b else a)"

definition Math_min :: "jsnum \<Rightarrow> jsnum \<Rightarrow> jsnum" where
  "Math_min a b = (if isNaN a \<or> isNaN b then NaN else if js_lt b a then b else a)"

text \<open>\<open>Math.round\<close> rounds to the nearest integer, a half towards \<open>+\<infinity>\<close>.\<close>

fun Math_round :: "jsnum \<Rightarrow> jsnum" where
  "Math_round (Fin x) = Fin (of_int \<lfloor>x + 1 / 2\<rfloor>)"
| "Math_round x = x"

section \<open>The eco score of the dashboard\<close>

text \<open>
  \<open>Dashboard.jsx\<close> holds the summary that \<open>GET /api/emissions/summary\<close> returned, or
  \<open>null\<close> before the first answer (\<open>None\<close>). A numeric field is a number when it is
  present, and \<open>None\<close> when it is missing or \<open>null\<close>.
\<close>

record daily_summary =
  date :: string
  emissions_grams :: "jsnum option"
  energy_kwh :: "jsnum option"
  activity_count :: "jsnum option"

record summary =
  period_days :: "jsnum option"
  daily_summaries :: "daily_summary list"
  total_emissions_grams :: "jsnum option"
  total_energy_kwh :: "jsnum option"

text \<open>The summary that \<open>loadData\<close> stores when the request fails.\<close>

definition defaultData :: summary where
  "defaultData =
     \<lparr>period_days = Some (Fin 7), daily_summaries = [],
      total_emissions_grams = Some (Fin 0), total_energy_kwh = Some (Fin 0)\<rparr>"

text \<open>The locals \<open>totalEmissions\<close> and \<open>periodDays\<close>, with their defaults.\<close>

definition totalEmissions :: "summary \<Rightarrow> jsnum" where
  "totalEmissions s = js_or (total_emissions_grams s) (Fin 0)"

definition periodDays :: "summary \<Rightarrow> jsnum" where
  "periodDays s = js_or (period_days s) (Fin 7)"

definition avgDailyEmissions :: "summary \<Rightarrow> jsnum" where
  "avgDailyEmissions s = js_div (totalEmissions s) (periodDays s)"

text \<open>
  The piecewise score: \<open>score\<close> starts at 100 and the brackets are tried in order. The
  literals \<open>0.1\<close> and \<open>0.5\<close> are the exact fractions.
\<close>

definition bracket_score :: "jsnum \<Rightarrow> jsnum" where
  "bracket_score avg =
     (if js_gt avg (Fin 0) then
        (if js_le avg (Fin (1 / 10)) then Fin 100
         else if js_le avg (Fin (1 / 2)) then js_sub (Fin 100) (js_mul avg (Fin 20))
         else if js_le avg (Fin 1) then
           js_sub (Fin 90) (js_mul (js_sub avg (Fin (1 / 2))) (Fin 10))
         else if js_le avg (Fin 2) then
           js_sub (Fin 85) (js_mul (js_sub avg (Fin 1)) (Fin 5))
         else if js_le avg (Fin 5) then
           js_sub (Fin 80) (js_mul (js_sub avg (Fin 2)) (Fin 10))
         else Math_max (Fin 0) (js_sub (Fin 50) (js_mul (js_sub avg (Fin 5)) (Fin 10))))
      else Fin 100)"

text \<open>The clamp to \<open>[0, 100]\<close>, the rounding and the last guard.\<close>

definition finish_score :: "jsnum \<Rightarrow> jsnum" where
  "finish_score score0 =
     (let score = Math_max (Fin 0) (Math_min (Fin 100) score0);
          result = Math_round score
      in if isNaN result \<or> \<not> isFinite result then Fin 85 else result)"

text \<open>
  The value of the \<open>useMemo\<close> callback \<open>ecoScore\<close>: a function of \<open>summary\<close> alone. It
  has no \<open>throw\<close>; each \<open>return\<close> is a branch.
\<close>

definition ecoScore :: "summary option \<Rightarrow> jsnum" where
  "ecoScore sm =
     (case sm of
        None \<Rightarrow> Fin 85
      | Some s \<Rightarrow>
          if js_seq (totalEmissions s) (Fin 0) then Fin 100
          else if js_seq (periodDays s) (Fin 0) \<or> isNaN (periodDays s) then Fin 85
          else finish_score (bracket_score (avgDailyEmissions s)))"

section \<open>The emission estimator\<close>

text \<open>
  Modelled from the spec: the estimator \<open>estimate\<close> (the backend's
  \<open>estimate_carbon_footprint\<close> in \<open>backend/main.py\<close>) is not among the sources; the
  frontend only displays its results. The definitions of this section follow section 4.1
  of the specification. Numbers are reals here, so no result is \<open>NaN\<close> or infinite and
  the error \<open>EstimationError\<close> has no branch.
\<close>

text \<open>Modelled from the spec: the errors of section 7.\<close>

datatype estimate_error = InvalidActivityType | InvalidDuration | EstimationError

text \<open>
  Modelled from the spec: the metadata of an ActivityRecord and the EmissionResult of
  section 3.
\<close>

datatype quality = Low | Medium | High

datatype device_type = Mobile | Desktop | Server

record metadata =
  quality :: "quality option"
  device_type :: "device_type option"

record emission_result =
  energy_kwh :: real
  co2_grams :: real
  power_watts :: real
  cpu_load_factor :: real

text \<open>Modelled from the spec: the grid intensity, at its default of 475 g/kWh.\<close>

definition GRID_INTENSITY :: real where
  "GRID_INTENSITY = 475"

text \<open>Modelled from the spec: the base power table, in watts.\<close>

definition base_power_table :: "(string \<times> real) list" where
  "base_power_table =
     [(''youtube'', 15), (''ott'', 18), (''browsing'', 8), (''gmail'', 5),
      (''code_execution'', 50), (''idle'', 3)]"

definition base_power :: "string \<Rightarrow> real option" where
  "base_power t = map_of base_power_table t"

text \<open>Modelled from the spec: \<open>factor = clamp(cpu_percent / 50, 0.5, 2.0)\<close>.\<close>

definition clamp :: "real \<Rightarrow> real \<Rightarrow> real \<Rightarrow> real" where
  "clamp x lo hi = max lo (min hi x)"

definition load_factor :: "real \<Rightarrow> real" where
  "load_factor cpu_percent = clamp (cpu_percent / 50) (1 / 2) 2"

text \<open>Modelled from the spec: the quality and device adjustments.\<close>

fun quality_factor :: "quality option \<Rightarrow> real" where
  "quality_factor (Some High) = 13 / 10"
| "quality_factor (Some Low) = 7 / 10"
| "quality_factor _ = 1"

fun device_factor :: "device_type option \<Rightarrow> real" where
  "device_factor (Some Mobile) = 1 / 2"
| "device_factor (Some Server) = 3 / 2"
| "device_factor _ = 1"

text \<open>
  Modelled from the spec: \<open>estimate(activity_type, duration_seconds, metadata, cpu_percent)\<close>.
  An unknown activity type and a negative duration are rejected; otherwise the effective
  power, the energy and the emissions are the products that section 4.1 gives.
\<close>

definition estimate ::
  "string \<Rightarrow> real \<Rightarrow> metadata \<Rightarrow> real \<Rightarrow> estimate_error + emission_result" where
  "estimate t seconds md cpu_percent =
     (case base_power t of
        None \<Rightarrow> Inl InvalidActivityType
      | Some base \<Rightarrow>
          if seconds < 0 then Inl InvalidDuration
          else
            let factor = load_factor cpu_percent;
                power = base * factor * quality_factor (quality md)
                          * device_factor (device_type md);
                energy = power * (seconds / 3600) / 1000
            in Inr \<lparr>energy_kwh = energy, co2_grams = energy * GRID_INTENSITY,
                    power_watts = power, cpu_load_factor = factor\<rparr>)"

section \<open>The activity breakdown chart\<close>

text \<open>
  \<open>ActivityBreakdownChart\<close> receives the logs of a day. Strings are byte strings, and
  \<open>toLowerCase\<close> and \<open>toUpperCase\<close> change the ASCII letters only.
\<close>

definition toLowerCase_char :: "char \<Rightarrow> char" where
  "toLowerCase_char c =
     (case map_of (zip ''ABCDEFGHIJKLMNOPQRSTUVWXYZ'' ''abcdefghijklmnopqrstuvwxyz'') c of
        None \<Rightarrow> c | Some l \<Rightarrow> l)"

definition toUpperCase_char :: "char \<Rightarrow> char" where
  "toUpperCase_char c =
     (case map_of (zip ''abcdefghijklmnopqrstuvwxyz'' ''ABCDEFGHIJKLMNOPQRSTUVWXYZ'') c of
        None \<Rightarrow> c | Some u \<Rightarrow> u)"

definition toLowerCase :: "string \<Rightarrow> string" where
  "toLowerCase s = map toLowerCase_char s"

record activity_log =
  activity_type :: "string option"
  duration_seconds :: "jsnum option"
  co2_grams :: "jsnum option"

text \<open>
  An entry of \<open>activityMap\<close>. The source's field \<open>value\<close> is \<open>item_value\<close> here. A chart
  item is an entry with its \<open>percent\<close>; the \<open>gradientId\<close>, which only names a colour
  gradient, is left out.
\<close>

record map_entry =
  name :: string
  item_value :: jsnum
  emissions :: jsnum
  type :: string

record chart_item = map_entry +
  percent :: jsnum

definition nameMap :: "(string \<times> string) list" where
  "nameMap =
     [(''youtube'', ''YouTube''), (''ott'', ''OTT Streaming''), (''gmail'', ''Gmail''),
      (''browsing'', ''Browsing''), (''code_execution'', ''Code Execution''),
      (''idle'', ''Idle''), (''unknown'', ''Unknown'')]"

text \<open>
  \<open>activityMap\<close> starts as the object \<open>{}\<close>, which inherits properties from
  \<open>Object.prototype\<close>. Two of their names are lower case already: for such a type the
  test \<open>!activityMap[type]\<close> finds the inherited value, no entry is created, and the two
  \<open>+=\<close> write to the inherited object instead.
\<close>

definition inherited_keys :: "string list" where
  "inherited_keys = [''constructor'', ''__proto__'']"

text \<open>\<open>(log.activity_type || 'unknown').toLowerCase()\<close>: the empty string is falsy.\<close>

definition log_type :: "activity_log \<Rightarrow> string" where
  "log_type l =
     toLowerCase (case activity_type l of
        None \<Rightarrow> ''unknown''
      | Some t \<Rightarrow> if t = [] then ''unknown'' else t)"

text \<open>\<open>nameMap[type] || type.charAt(0).toUpperCase() + type.slice(1)\<close>.\<close>

definition display_name :: "string \<Rightarrow> string" where
  "display_name t =
     (case map_of nameMap t of
        Some n \<Rightarrow> n
      | None \<Rightarrow> (case t of [] \<Rightarrow> [] | c # cs \<Rightarrow> toUpperCase_char c # cs))"

definition new_entry :: "string \<Rightarrow> map_entry" where
  "new_entry t = \<lparr>name = display_name t, item_value = Fin 0, emissions = Fin 0, type = t\<rparr>"

text \<open>
  The object is an association list in insertion order (the order in which JavaScript
  lists keys that look like integers is not modelled). \<open>accumulate\<close> is the pair of
  \<open>+=\<close> on the entry of a type. Its sums of finite numbers are exact: they are the
  doubles' sums up to rounding as long as no sum leaves the range of the doubles, whose
  largest finite value is just below \<open>2^1024\<close>. Beyond that range the doubles give
  \<open>\<infinity>\<close>, which these sums do not show; the statement about the percentages
  therefore bounds the durations.
\<close>

fun accumulate ::
  "string \<Rightarrow> jsnum \<Rightarrow> jsnum \<Rightarrow> (string \<times> map_entry) list \<Rightarrow> (string \<times> map_entry) list" where
  "accumulate t d e [] = []"
| "accumulate t d e ((k, v) # m) =
     (if k = t
      then (k, v\<lparr>item_value := js_add (item_value v) d,
                 emissions := js_add (emissions v) e\<rparr>) # m
      else (k, v) # accumulate t d e m)"

text \<open>The body of \<open>data.forEach\<close>, for one log.\<close>

definition add_log ::
  "(string \<times> map_entry) list \<Rightarrow> activity_log \<Rightarrow> (string \<times> map_entry) list" where
  "add_log m l =
     (let t = log_type l in
      if t \<in> set inherited_keys then m
      else accumulate t (js_or (duration_seconds l) (Fin 0)) (js_or (co2_grams l) (Fin 0))
             (if map_of m t = None then m @ [(t, new_entry t)] else m))"

definition activityMap :: "activity_log list \<Rightarrow> (string \<times> map_entry) list" where
  "activityMap data = foldl add_log [] data"

text \<open>The \<open>filter\<close> and the \<open>map\<close> to whole minutes, then the total and the percentages.\<close>

definition to_minutes :: "map_entry \<Rightarrow> chart_item" where
  "to_minutes item =
     \<lparr>name = name item, item_value = Math_round (js_div (item_value item) (Fin 60)),
      emissions = emissions item, type = type item, percent = Fin 0\<rparr>"

definition chart_items :: "activity_log list \<Rightarrow> chart_item list" where
  "chart_items data =
     map to_minutes
       (filter (\<lambda>item. js_gt (item_value item) (Fin 0)) (map snd (activityMap data)))"

definition chart_total :: "chart_item list \<Rightarrow> jsnum" where
  "chart_total items = foldl (\<lambda>sum item. js_add sum (item_value item)) (Fin 0) items"

definition set_percent :: "jsnum \<Rightarrow> chart_item \<Rightarrow> chart_item" where
  "set_percent tot item =
     item\<lparr>percent :=
       (if js_gt tot (Fin 0) then js_mul (js_div (item_value item) tot) (Fin 100)
        else Fin 0)\<rparr>"

text \<open>
  \<open>chartData\<close> as the chart and its legend read it. For absent or empty \<open>data\<close> the
  component returns before it aggregates anything.
\<close>

definition chartData :: "activity_log list \<Rightarrow> chart_item list" where
  "chartData data =
     (let items = chart_items data in map (set_percent (chart_total items)) items)"

section \<open>The timer display\<close>

text \<open>
  \<open>formatTime\<close> of \<open>CarbonTracker\<close> shows the elapsed whole seconds. The argument is a
  double; the model takes a natural number and is the code's arithmetic for the integers
  that a double holds exactly, those up to \<open>Number.MAX_SAFE_INTEGER\<close>. The statement about
  \<open>formatTime\<close> is restricted to them.
\<close>

definition MAX_SAFE_INTEGER :: nat where
  "MAX_SAFE_INTEGER = 2 ^ 53 - 1"

text \<open>
  \<open>toString\<close> is the decimal numeral, which is what \<open>Number.prototype.toString\<close> prints
  for an integer below \<open>10^21\<close> (from there on it prints an exponent, which is not
  modelled). \<open>padStart\<close> pads with one character up to a width, and \<open>pad2 n\<close> is
  \<open>n.toString().padStart(2, '0')\<close>.
\<close>

definition digit_char :: "nat \<Rightarrow> char" where
  "digit_char d = ''0123456789'' ! (d mod 10)"

fun toString :: "nat \<Rightarrow> string" where
  "toString n =
     (if n < 10 then [digit_char n] else toString (n div 10) @ [digit_char (n mod 10)])"

declare toString.simps [simp del]

definition padStart :: "nat \<Rightarrow> char \<Rightarrow> string \<Rightarrow> string" where
  "padStart n c s = replicate (n - length s) c @ s"

definition pad2 :: "nat \<Rightarrow> string" where
  "pad2 n = padStart 2 (CHR ''0'') (toString n)"

definition formatTime :: "nat \<Rightarrow> string" where
  "formatTime seconds =
     (let hrs = seconds div 3600;
          mins = (seconds mod 3600) div 60;
          secs = seconds mod 60
      in pad2 hrs @ '':'' @ pad2 mins @ '':'' @ pad2 secs)"

section \<open>Notions used in the statements and proofs\<close>

text \<open>On a finite positive average the brackets compute this real function.\<close>

definition bracket_real :: "real \<Rightarrow> real" where
  "bracket_real a =
     (if a \<le> 1 / 10 then 100
      else if a \<le> 1 / 2 then 100 - a * 20
      else if a \<le> 1 then 90 - (a - 1 / 2) * 10
      else if a \<le> 2 then 85 - (a - 1) * 5
      else if a \<le> 5 then 80 - (a - 2) * 10
      else max 0 (50 - (a - 5) * 10))"

definition clamp_round :: "real \<Rightarrow> int" where
  "clamp_round y = \<lfloor>max 0 (min 100 y) + 1 / 2\<rfloor>"

text \<open>A number that is finite or \<open>-\<infinity>\<close>, and the real value of a finite number.\<close>

fun below_inf :: "jsnum \<Rightarrow> bool" where
  "below_inf (Fin _) = True"
| "below_inf NInf = True"
| "below_inf _ = False"

fun fin_val :: "jsnum \<Rightarrow> real" where
  "fin_val (Fin x) = x"
| "fin_val _ = 0"

definition entry_ok :: "string \<times> map_entry \<Rightarrow> bool" where
  "entry_ok p = below_inf (item_value (snd p))"

definition whole_minutes :: "chart_item \<Rightarrow> bool" where
  "whole_minutes item = (\<exists>n::int. item_value item = Fin (of_int n) \<and> 0 \<le> n)"

text \<open>
  The size of a finite number, the sum of the sizes of all durations of a list of logs,
  and the sum of the sizes of the values in \<open>activityMap\<close>.
\<close>

fun mag :: "jsnum \<Rightarrow> real" where
  "mag (Fin x) = \<bar>x\<bar>"
| "mag _ = 0"

definition duration_mass :: "activity_log list \<Rightarrow> real" where
  "duration_mass data =
     sum_list (map (\<lambda>l. mag (js_or (duration_seconds l) (Fin 0))) data)"

definition entry_mass :: "(string \<times> map_entry) list \<Rightarrow> real" where
  "entry_mass m = sum_list (map (\<lambda>e. mag (item_value (snd e))) m)"

text \<open>
  Reading a decimal numeral back: only the ten digits are accepted, and the empty string
  is no numeral. A string with a space, a colon or any other character reads as \<open>None\<close>.
\<close>

definition digit_value :: "char \<Rightarrow> nat option" where
  "digit_value c = map_of (zip ''0123456789'' [0, 1, 2, 3, 4, 5, 6, 7, 8, 9]) c"

fun read_digits :: "nat \<Rightarrow> string \<Rightarrow> nat option" where
  "read_digits acc [] = Some acc"
| "read_digits acc (c # cs) =
     (case digit_value c of None \<Rightarrow> None | Some d \<Rightarrow> read_digits (10 * acc + d) cs)"

definition read_decimal :: "string \<Rightarrow> nat option" where
  "read_decimal s = (if s = [] then None else read_digits 0 s)"

section \<open>Properties of the eco score\<close>

lemmas js_defs =
  js_seq_def js_gt_def js_le_def js_sub_def Math_max_def Math_min_def inf_of_sign_def

lemmas summary_defs = totalEmissions_def periodDays_def avgDailyEmissions_def

lemma bracket_score_Fin: "0 < a \<Longrightarrow> bracket_score (Fin a) = Fin (bracket_real a)"
  by (simp add: bracket_score_def bracket_real_def js_defs max_def)

lemma bracket_score_not_gt: "\<not> js_gt x (Fin 0) \<Longrightarrow> bracket_score x = Fin 100"
  by (simp add: bracket_score_def)

lemma bracket_score_PInf: "bracket_score PInf = Fin 0"
  by (simp add: bracket_score_def js_defs)

lemma bracket_score_finite: "\<exists>y. bracket_score x = Fin y"
proof (cases "js_gt x (Fin 0)")
  case False
  then show ?thesis by (simp add: bracket_score_not_gt)
next
  case True
  then show ?thesis
    by (cases x) (simp_all add: bracket_score_PInf bracket_score_Fin js_gt_def)
qed

lemma bracket_real_antimono: "a \<le> b \<Longrightarrow> bracket_real b \<le> bracket_real a"
  by (auto simp: bracket_real_def max_def)

lemma clamp_round_eq:
  "Math_round (Math_max (Fin 0) (Math_min (Fin 100) (Fin y))) = Fin (of_int (clamp_round y))"
  by (simp add: js_defs clamp_round_def max_def min_def)

lemma finish_score_Fin: "finish_score (Fin y) = Fin (of_int (clamp_round y))"
  by (simp add: finish_score_def js_defs clamp_round_def Let_def max_def min_def)

lemma clamp_round_range: "0 \<le> clamp_round y \<and> clamp_round y \<le> 100"
  unfolding clamp_round_def by (auto simp: max_def min_def le_floor_iff floor_le_iff)

lemma clamp_round_mono: "x \<le> y \<Longrightarrow> clamp_round x \<le> clamp_round y"
  unfolding clamp_round_def by (rule floor_mono) (auto simp: max_def min_def)

lemma clamp_round_100: "clamp_round 100 = 100"
  by (simp add: clamp_round_def)

lemma clamp_round_0: "clamp_round 0 = 0"
  by (simp add: clamp_round_def)

lemma finish_score_range: "\<exists>n. finish_score x = Fin (of_int n) \<and> 0 \<le> n \<and> n \<le> 100"
proof (cases x)
  case (Fin y)
  then show ?thesis using clamp_round_range [of y] by (auto simp: finish_score_Fin)
next
  case NaN
  then show ?thesis by (auto simp: finish_score_def js_defs intro: exI [of _ 85])
next
  case NInf
  then show ?thesis by (auto simp: finish_score_def js_defs intro: exI [of _ 0])
next
  case PInf
  then show ?thesis by (auto simp: finish_score_def js_defs intro: exI [of _ 100])
qed

text \<open>After the defaults the day count is never zero and never \<open>NaN\<close>.\<close>

lemma js_or_truthy: "truthy d \<Longrightarrow> truthy (js_or x d)"
  by (cases x) auto

lemma periodDays_truthy: "truthy (periodDays s)"
  by (simp add: periodDays_def js_or_truthy)

lemma periodDays_guard: "\<not> (js_seq (periodDays s) (Fin 0) \<or> isNaN (periodDays s))"
  using periodDays_truthy [of s] by (cases "periodDays s") (auto simp: js_seq_def)

lemma ecoScore_Some:
  "ecoScore (Some s) =
     (if js_seq (totalEmissions s) (Fin 0) then Fin 100
      else finish_score (bracket_score (avgDailyEmissions s)))"
  using periodDays_guard [of s] by (simp add: ecoScore_def)

lemma ecoScore_int_range: "\<exists>n. ecoScore sm = Fin (of_int n) \<and> 0 \<le> n \<and> n \<le> 100"
proof (cases sm)
  case None
  then show ?thesis by (auto simp: ecoScore_def intro: exI [of _ 85])
next
  case (Some s)
  show ?thesis
  proof (cases "js_seq (totalEmissions s) (Fin 0)")
    case True
    with Some show ?thesis by (auto simp: ecoScore_Some intro: exI [of _ 100])
  next
    case False
    with Some show ?thesis
      using finish_score_range [of "bracket_score (avgDailyEmissions s)"]
      by (simp add: ecoScore_Some)
  qed
qed

lemma ecoScore_positive:
  assumes "total_emissions_grams s = Some t" and "period_days s = Some d"
    and "js_gt t (Fin 0)" and "js_gt d (Fin 0)"
  shows "ecoScore (Some s) = finish_score (bracket_score (js_div t d))"
proof -
  from assms have "totalEmissions s = t" and "periodDays s = d"
    by (cases t; cases d; simp add: summary_defs js_defs)+
  moreover from assms have "\<not> js_seq t (Fin 0)"
    by (cases t) (simp_all add: js_defs)
  ultimately show ?thesis by (simp add: ecoScore_Some avgDailyEmissions_def)
qed

lemma final_antimono:
  assumes "js_le a b"
  shows "js_le (finish_score (bracket_score b)) (finish_score (bracket_score a))"
proof -
  obtain m where m: "finish_score (bracket_score a) = Fin (of_int m)" "0 \<le> m" "m \<le> 100"
    using finish_score_range by blast
  obtain n where n: "finish_score (bracket_score b) = Fin (of_int n)" "0 \<le> n" "n \<le> 100"
    using finish_score_range by blast
  have "n \<le> m"
  proof (cases "js_gt a (Fin 0)")
    case False
    then have "m = 100" using m
      by (simp add: bracket_score_not_gt finish_score_Fin clamp_round_100)
    with n show ?thesis by simp
  next
    case apos: True
    show ?thesis
    proof (cases b)
      case NaN
      with assms show ?thesis by (simp add: js_le_def)
    next
      case NInf
      with assms apos show ?thesis by (cases a) (simp_all add: js_defs)
    next
      case PInf
      then have "n = 0" using n
        by (simp add: bracket_score_PInf finish_score_Fin clamp_round_0)
      with m show ?thesis by simp
    next
      case (Fin y)
      with assms apos obtain x where x: "a = Fin x" "0 < x" "x \<le> y"
        by (cases a) (auto simp: js_defs)
      then have "0 < y" by simp
      with x Fin m n show ?thesis
        using clamp_round_mono [OF bracket_real_antimono [of x y]]
        by (simp add: bracket_score_Fin finish_score_Fin)
    qed
  qed
  with m n show ?thesis by (simp add: js_le_def)
qed

text \<open>
  Claim C1, as the code has it. The eco score is never \<open>NaN\<close> and never infinite. When the
  total-emissions field is \<open>NaN\<close>, or the total, the day count (both after their defaults)
  or the average daily emissions is not finite, the result is 100, except that an average
  of \<open>+\<infinity>\<close> gives 0: the non-finite value is never propagated. (The constant of the
  two guards in the code is 85; no numeric field reaches them.)
\<close>

theorem ecoScore_nonfinite:
  "\<not> isNaN (ecoScore sm) \<and> isFinite (ecoScore sm) \<and>
   (\<forall>s. sm = Some s \<longrightarrow>
      (total_emissions_grams s = Some NaN \<or> \<not> isFinite (totalEmissions s)
       \<or> \<not> isFinite (periodDays s) \<or> \<not> isFinite (avgDailyEmissions s)) \<longrightarrow>
      ecoScore sm = (if avgDailyEmissions s = PInf then Fin 0 else Fin 100))"
proof -
  obtain n where n: "ecoScore sm = Fin (of_int n)" using ecoScore_int_range by blast
  have "ecoScore (Some s) = (if avgDailyEmissions s = PInf then Fin 0 else Fin 100)"
    if "total_emissions_grams s = Some NaN \<or> \<not> isFinite (totalEmissions s)
       \<or> \<not> isFinite (periodDays s) \<or> \<not> isFinite (avgDailyEmissions s)" for s
  proof -
    have p: "truthy (periodDays s)" by (rule periodDays_truthy)
    show ?thesis using that p
      by (cases "totalEmissions s"; cases "periodDays s")
         (auto simp: ecoScore_Some avgDailyEmissions_def totalEmissions_def js_defs
               bracket_score_PInf bracket_score_not_gt finish_score_Fin
               clamp_round_0 clamp_round_100)
  qed
  with n show ?thesis by auto
qed

text \<open>An infinite total over an infinite period: the average is \<open>NaN\<close>, the score 100.\<close>

theorem ecoScore_nonfinite_witness:
  "\<not> isFinite (avgDailyEmissions
        \<lparr>period_days = Some PInf, daily_summaries = [],
         total_emissions_grams = Some PInf, total_energy_kwh = None\<rparr>)
   \<and> ecoScore (Some
        \<lparr>period_days = Some PInf, daily_summaries = [],
         total_emissions_grams = Some PInf, total_energy_kwh = None\<rparr>) = Fin 100"
  using ecoScore_nonfinite [of "Some
        \<lparr>period_days = Some PInf, daily_summaries = [],
         total_emissions_grams = Some PInf, total_energy_kwh = None\<rparr>"]
  by (simp add: summary_defs)

text \<open>
  Against claim C1 as it is written: an infinite total over 7 days makes the average
  \<open>+\<infinity>\<close>, a non-finite intermediate value, and the score is 0, not 100.
\<close>

theorem ecoScore_infinite_total:
  "avgDailyEmissions
     \<lparr>period_days = Some (Fin 7), daily_summaries = [],
      total_emissions_grams = Some PInf, total_energy_kwh = None\<rparr> = PInf
   \<and> ecoScore (Some
     \<lparr>period_days = Some (Fin 7), daily_summaries = [],
      total_emissions_grams = Some PInf, total_energy_kwh = None\<rparr>) = Fin 0"
  by (simp add: ecoScore_def summary_defs js_defs bracket_score_def finish_score_def)

text \<open>
  Claim C2, as the code has it. With total emissions above zero and a day count of zero
  the computation does not fail and does not divide by the day count: \<open>|| 7\<close> replaces
  the zero by the default of 7 days, and the result is the score of the same summary over
  7 days, an integer between 0 and 100.
\<close>

theorem ecoScore_zero_days:
  assumes "total_emissions_grams s = Some t" and "js_gt t (Fin 0)"
    and "period_days s = Some (Fin 0)"
  shows "periodDays s = Fin 7
    \<and> ecoScore (Some s) = ecoScore (Some (s\<lparr>period_days := Some (Fin 7)\<rparr>))
    \<and> (\<exists>n. ecoScore (Some s) = Fin (of_int n) \<and> 0 \<le> n \<and> n \<le> 100)"
  using assms ecoScore_int_range [of "Some s"] by (simp add: ecoScore_Some summary_defs)

theorem ecoScore_zero_days_witness:
  "js_gt (Fin 10) (Fin 0)
   \<and> periodDays
        \<lparr>period_days = Some (Fin 0), daily_summaries = [],
         total_emissions_grams = Some (Fin 10), total_energy_kwh = None\<rparr> = Fin 7
   \<and> ecoScore (Some
        \<lparr>period_days = Some (Fin 0), daily_summaries = [],
         total_emissions_grams = Some (Fin 10), total_energy_kwh = None\<rparr>)
     = ecoScore (Some
        \<lparr>period_days = Some (Fin 7), daily_summaries = [],
         total_emissions_grams = Some (Fin 10), total_energy_kwh = None\<rparr>)"
  using ecoScore_zero_days [of
        "\<lparr>period_days = Some (Fin 0), daily_summaries = [],
         total_emissions_grams = Some (Fin 10), total_energy_kwh = None\<rparr>" "Fin 10"]
  by (simp add: js_gt_def)

text \<open>
  Against claim C2 as it is written: 10 grams over a day count of zero is no error, it is
  the score 83 of 10 grams over 7 days.
\<close>

theorem ecoScore_zero_days_returns:
  "ecoScore (Some
     \<lparr>period_days = Some (Fin 0), daily_summaries = [],
      total_emissions_grams = Some (Fin 10), total_energy_kwh = None\<rparr>) = Fin 83"
  by (simp add: ecoScore_def summary_defs js_defs bracket_score_def finish_score_def)

text \<open>
  Claim C3. A summary of 10 grams over 7 days, whatever its other fields, has the eco
  score 83.
\<close>

theorem ecoScore_10g_7days:
  "ecoScore (Some (s\<lparr>total_emissions_grams := Some (Fin 10), period_days := Some (Fin 7)\<rparr>))
     = Fin 83"
  by (simp add: ecoScore_def summary_defs js_defs bracket_score_def finish_score_def)

text \<open>
  Claim C4, as the code has it. A summary whose total emissions are zero has the eco
  score 100, over any period; so has the summary with the empty list of daily summaries
  that the dashboard stores when loading fails. The list itself is never read.
\<close>

theorem ecoScore_zero_total:
  "(total_emissions_grams s = Some (Fin 0) \<longrightarrow> ecoScore (Some s) = Fin 100)
   \<and> daily_summaries defaultData = [] \<and> ecoScore (Some defaultData) = Fin 100"
  by (simp add: ecoScore_Some summary_defs js_defs defaultData_def)

theorem ecoScore_zero_total_witness:
  "ecoScore (Some
     \<lparr>period_days = Some (Fin 30), daily_summaries = [],
      total_emissions_grams = Some (Fin 0), total_energy_kwh = None\<rparr>) = Fin 100"
  using ecoScore_zero_total [of
     "\<lparr>period_days = Some (Fin 30), daily_summaries = [],
      total_emissions_grams = Some (Fin 0), total_energy_kwh = None\<rparr>"]
  by simp

text \<open>
  Against claim C4 as it is written: a summary with an empty list of daily summaries and
  a total of 20 grams over 7 days has the score 71, not 100.
\<close>

theorem ecoScore_empty_list_nonzero_total:
  "daily_summaries
     \<lparr>period_days = Some (Fin 7), daily_summaries = [],
      total_emissions_grams = Some (Fin 20), total_energy_kwh = None\<rparr> = []
   \<and> ecoScore (Some
     \<lparr>period_days = Some (Fin 7), daily_summaries = [],
      total_emissions_grams = Some (Fin 20), total_energy_kwh = None\<rparr>) = Fin 71"
  by (simp add: ecoScore_def summary_defs js_defs bracket_score_def finish_score_def)

text \<open>
  Claim C5. For two summaries with positive totals and positive day counts, if the average
  daily emissions of the first are at most those of the second, the eco score of the
  second is at most that of the first.
\<close>

theorem ecoScore_antimono:
  assumes "total_emissions_grams s1 = Some t1" and "period_days s1 = Some d1"
    and "total_emissions_grams s2 = Some t2" and "period_days s2 = Some d2"
    and "js_gt t1 (Fin 0)" and "js_gt d1 (Fin 0)"
    and "js_gt t2 (Fin 0)" and "js_gt d2 (Fin 0)"
    and "js_le (js_div t1 d1) (js_div t2 d2)"
  shows "js_le (ecoScore (Some s2)) (ecoScore (Some s1))"
  using assms final_antimono [of "js_div t1 d1" "js_div t2 d2"]
  by (simp add: ecoScore_positive [of s1 t1 d1] ecoScore_positive [of s2 t2 d2])

text \<open>Exactly 2 grams a day against 15 grams over 7 days: the bracket boundary at 2.\<close>

theorem ecoScore_antimono_witness:
  "js_gt (Fin 14) (Fin 0) \<and> js_gt (Fin 15) (Fin 0) \<and> js_gt (Fin 7) (Fin 0)
   \<and> js_le (js_div (Fin 14) (Fin 7)) (js_div (Fin 15) (Fin 7))
   \<and> js_le
        (ecoScore (Some
          \<lparr>period_days = Some (Fin 7), daily_summaries = [],
           total_emissions_grams = Some (Fin 15), total_energy_kwh = None\<rparr>))
        (ecoScore (Some
          \<lparr>period_days = Some (Fin 7), daily_summaries = [],
           total_emissions_grams = Some (Fin 14), total_energy_kwh = None\<rparr>))"
  using ecoScore_antimono [of
          "\<lparr>period_days = Some (Fin 7), daily_summaries = [],
           total_emissions_grams = Some (Fin 14), total_energy_kwh = None\<rparr>"
          "Fin 14" "Fin 7"
          "\<lparr>period_days = Some (Fin 7), daily_summaries = [],
           total_emissions_grams = Some (Fin 15), total_energy_kwh = None\<rparr>"
          "Fin 15" "Fin 7"]
  by (simp add: js_gt_def js_le_def)

text \<open>
  Claim C6. For every summary, absent or present, the eco score is an integer between 0
  and 100; for a present summary with a non-zero total it is the piecewise score, clamped
  to \<open>[0, 100]\<close> and then rounded.
\<close>

theorem ecoScore_integer_0_100:
  "(\<exists>n. ecoScore sm = Fin (of_int n) \<and> 0 \<le> n \<and> n \<le> 100)
   \<and> ecoScore (Some s) =
       (if js_seq (totalEmissions s) (Fin 0) then Fin 100
        else Math_round (Math_max (Fin 0) (Math_min (Fin 100)
               (bracket_score (avgDailyEmissions s)))))"
proof -
  obtain y where "bracket_score (avgDailyEmissions s) = Fin y"
    using bracket_score_finite by blast
  then have "finish_score (bracket_score (avgDailyEmissions s)) =
      Math_round (Math_max (Fin 0) (Math_min (Fin 100) (bracket_score (avgDailyEmissions s))))"
    by (simp only: finish_score_Fin clamp_round_eq)
  then show ?thesis using ecoScore_int_range [of sm] by (simp add: ecoScore_Some)
qed

text \<open>
  Claim C8. While no summary is loaded (\<open>summary\<close> is \<open>null\<close>), the eco score is the
  default 85.
\<close>

theorem ecoScore_no_summary: "ecoScore None = Fin 85"
  by (simp add: ecoScore_def)

section \<open>Properties of the emission estimator\<close>

lemma base_power_pos: "base_power t = Some b \<Longrightarrow> 0 < b"
  by (auto simp: base_power_def base_power_table_def split: if_splits)

lemma load_factor_range: "1 / 2 \<le> load_factor c \<and> load_factor c \<le> 2"
  by (simp add: load_factor_def clamp_def)

lemma quality_factor_pos: "0 < quality_factor q"
  by (cases q rule: quality_factor.cases) simp_all

lemma device_factor_pos: "0 < device_factor d"
  by (cases d rule: device_factor.cases) simp_all

text \<open>
  Claim C7. For a valid activity type and a duration of at least zero seconds,
  \<open>estimate\<close> returns a result whose energy and emissions are not negative, and the
  emissions are the energy times \<open>GRID_INTENSITY\<close>.
\<close>

theorem estimate_nonneg_proportional:
  assumes "base_power t \<noteq> None" and "0 \<le> seconds"
  shows "\<exists>r. estimate t seconds md cpu = Inr r
           \<and> 0 \<le> emission_result.energy_kwh r \<and> 0 \<le> emission_result.co2_grams r
           \<and> emission_result.co2_grams r = emission_result.energy_kwh r * GRID_INTENSITY"
proof -
  from assms(1) obtain b where b: "base_power t = Some b" by auto
  define p where
    "p = b * load_factor cpu * quality_factor (quality md) * device_factor (device_type md)"
  have "0 < load_factor cpu" using load_factor_range [of cpu] by linarith
  with base_power_pos [OF b] have "0 < p"
    by (simp add: p_def quality_factor_pos device_factor_pos)
  with assms(2) have e: "0 \<le> p * (seconds / 3600) / 1000" by simp
  then have "0 \<le> p * (seconds / 3600) / 1000 * GRID_INTENSITY"
    by (simp add: GRID_INTENSITY_def)
  with e b assms(2) show ?thesis
    by (simp add: estimate_def Let_def p_def)
qed

text \<open>An hour of \<open>youtube\<close> at 50 percent CPU load, with no metadata.\<close>

theorem estimate_nonneg_proportional_witness:
  "base_power ''youtube'' \<noteq> None \<and> (0::real) \<le> 3600
   \<and> (\<exists>r. estimate ''youtube'' 3600 \<lparr>quality = None, device_type = None\<rparr> 50 = Inr r
         \<and> 0 \<le> emission_result.energy_kwh r \<and> 0 \<le> emission_result.co2_grams r
         \<and> emission_result.co2_grams r = emission_result.energy_kwh r * GRID_INTENSITY)"
  using estimate_nonneg_proportional
    [of "''youtube''" 3600 "\<lparr>quality = None, device_type = None\<rparr>" 50]
  by (simp add: base_power_def base_power_table_def)

section \<open>Properties of the activity breakdown\<close>

lemma js_or_below_inf: "x \<noteq> Some PInf \<Longrightarrow> below_inf (js_or x (Fin 0))"
  by (cases x; cases "the x") auto

lemma js_add_below_inf: "below_inf a \<Longrightarrow> below_inf b \<Longrightarrow> below_inf (js_add a b)"
  by (cases a; cases b) auto

lemma accumulate_below_inf:
  assumes "list_all entry_ok m" and "below_inf d"
  shows "list_all entry_ok (accumulate t d e m)"
  using assms by (induction m) (auto simp: js_add_below_inf entry_ok_def)

lemma add_log_below_inf:
  assumes "list_all entry_ok m" and "duration_seconds l \<noteq> Some PInf"
  shows "list_all entry_ok (add_log m l)"
proof (cases "log_type l \<in> set inherited_keys")
  case True
  with assms show ?thesis by (simp add: add_log_def)
next
  case False
  let ?m = "if map_of m (log_type l) = None
            then m @ [(log_type l, new_entry (log_type l))] else m"
  from assms(1) have "list_all entry_ok ?m"
    by (auto simp: new_entry_def entry_ok_def)
  then have "list_all entry_ok
      (accumulate (log_type l) (js_or (duration_seconds l) (Fin 0))
         (js_or (activity_log.co2_grams l) (Fin 0)) ?m)"
    using js_or_below_inf [OF assms(2)] by (rule accumulate_below_inf)
  with False show ?thesis by (simp add: add_log_def Let_def)
qed

lemma foldl_add_log_below_inf:
  assumes "list_all entry_ok m"
    and "\<forall>l\<in>set data. duration_seconds l \<noteq> Some PInf"
  shows "list_all entry_ok (foldl add_log m data)"
  using assms
proof (induction data arbitrary: m)
  case Nil
  then show ?case by simp
next
  case (Cons l data)
  from Cons.prems have "list_all entry_ok (add_log m l)"
    by (intro add_log_below_inf) auto
  with Cons.prems show ?case by (simp add: Cons.IH)
qed

lemma activityMap_below_inf:
  assumes "\<forall>l\<in>set data. duration_seconds l \<noteq> Some PInf"
  shows "list_all entry_ok (activityMap data)"
  unfolding activityMap_def using assms by (intro foldl_add_log_below_inf) auto

lemma to_minutes_whole:
  assumes "below_inf (item_value v)" and "js_gt (item_value v) (Fin 0)"
  shows "whole_minutes (to_minutes v)"
proof -
  from assms obtain x where x: "item_value v = Fin x" "0 < x"
    by (cases "item_value v") (auto simp: js_gt_def)
  then have "0 \<le> \<lfloor>x / 60 + 1 / 2\<rfloor>" by simp
  with x show ?thesis by (auto simp: whole_minutes_def to_minutes_def)
qed

lemma chart_items_whole:
  assumes "\<forall>l\<in>set data. duration_seconds l \<noteq> Some PInf"
  shows "\<forall>item\<in>set (chart_items data). whole_minutes item"
  using activityMap_below_inf [OF assms]
  by (auto simp: chart_items_def to_minutes_whole list_all_iff entry_ok_def)

lemma foldl_total:
  assumes "\<forall>item\<in>set items. whole_minutes item"
  shows "foldl (\<lambda>sum item. js_add sum (item_value item)) (Fin a) items
         = Fin (a + sum_list (map (\<lambda>item. fin_val (item_value item)) items))"
  using assms by (induction items arbitrary: a) (auto simp: whole_minutes_def algebra_simps)

lemma member_le_sum_list_real:
  fixes xs :: "real list"
  assumes "\<forall>y\<in>set xs. 0 \<le> y" and "x \<in> set xs"
  shows "x \<le> sum_list xs"
  using assms
proof (induction xs)
  case Nil
  then show ?case by simp
next
  case (Cons y ys)
  then have "0 \<le> sum_list ys" by (simp add: sum_list_nonneg)
  with Cons show ?case by auto
qed

lemma item_le_total:
  assumes "\<forall>item\<in>set items. whole_minutes item" and "item \<in> set items"
  shows "\<exists>v t. item_value item = Fin v \<and> chart_total items = Fin t \<and> 0 \<le> v \<and> v \<le> t"
proof -
  let ?f = "\<lambda>item. fin_val (item_value item)"
  from assms obtain v where v: "item_value item = Fin v" "0 \<le> v"
    by (auto simp: whole_minutes_def)
  have "\<forall>y\<in>set (map ?f items). 0 \<le> y"
    using assms(1) by (auto simp: whole_minutes_def)
  moreover from assms(2) v have "v \<in> set (map ?f items)" by force
  ultimately have "v \<le> sum_list (map ?f items)" by (rule member_le_sum_list_real)
  moreover have "chart_total items = Fin (sum_list (map ?f items))"
    using foldl_total [OF assms(1), of 0] by (simp add: chart_total_def)
  ultimately show ?thesis using v by simp
qed

lemma set_percent_range:
  assumes "item_value item = Fin v" and "0 \<le> v" and "v \<le> t"
  shows "\<exists>p. percent (set_percent (Fin t) item) = Fin p \<and> 0 \<le> p \<and> p \<le> 100
           \<and> (t = 0 \<longrightarrow> p = 0)"
proof (cases "0 < t")
  case True
  with assms have "0 \<le> v / t * 100" and "v / t * 100 \<le> 100" by (simp_all add: field_simps)
  with True assms show ?thesis by (simp add: set_percent_def js_gt_def)
next
  case False
  then show ?thesis by (simp add: set_percent_def js_gt_def)
qed

text \<open>No value and no total is larger than the sizes of the durations together.\<close>

lemma mag_nonneg: "0 \<le> mag a"
  by (cases a) auto

lemma mag_js_add: "mag (js_add a b) \<le> mag a + mag b"
  by (cases a; cases b) auto

lemma entry_mass_accumulate: "entry_mass (accumulate t d e m) \<le> entry_mass m + mag d"
proof (induction m)
  case Nil
  then show ?case by (simp add: entry_mass_def mag_nonneg)
next
  case (Cons p m)
  obtain k v where p: "p = (k, v)" by (cases p)
  show ?case
  proof (cases "k = t")
    case True
    with p show ?thesis using mag_js_add [of "item_value v" d] by (simp add: entry_mass_def)
  next
    case False
    with p Cons show ?thesis by (simp add: entry_mass_def)
  qed
qed

lemma entry_mass_add_log:
  "entry_mass (add_log m l) \<le> entry_mass m + mag (js_or (duration_seconds l) (Fin 0))"
proof (cases "log_type l \<in> set inherited_keys")
  case True
  then show ?thesis by (simp add: add_log_def mag_nonneg)
next
  case False
  let ?m = "if map_of m (log_type l) = None
            then m @ [(log_type l, new_entry (log_type l))] else m"
  have "entry_mass ?m = entry_mass m" by (simp add: entry_mass_def new_entry_def)
  with False show ?thesis
    using entry_mass_accumulate [of "log_type l" "js_or (duration_seconds l) (Fin 0)"
        "js_or (activity_log.co2_grams l) (Fin 0)" ?m]
    by (simp add: add_log_def Let_def)
qed

lemma entry_mass_foldl:
  "entry_mass (foldl add_log m data) \<le> entry_mass m + duration_mass data"
proof (induction data arbitrary: m)
  case Nil
  then show ?case by (simp add: duration_mass_def)
next
  case (Cons l data)
  have "entry_mass (foldl add_log (add_log m l) data)
        \<le> entry_mass (add_log m l) + duration_mass data"
    by (rule Cons.IH)
  with entry_mass_add_log [of m l] show ?case by (simp add: duration_mass_def)
qed

lemma entry_mass_activityMap: "entry_mass (activityMap data) \<le> duration_mass data"
  using entry_mass_foldl [of "[]" data] by (simp add: activityMap_def entry_mass_def)

lemma entry_le_mass:
  assumes "e \<in> set m"
  shows "mag (item_value (snd e)) \<le> entry_mass m"
  unfolding entry_mass_def
  by (rule member_le_sum_list_real) (use assms in \<open>auto simp: mag_nonneg\<close>)

lemma round_minutes_le: "0 < x \<Longrightarrow> of_int \<lfloor>x / 60 + 1 / 2\<rfloor> \<le> x" for x :: real
proof (cases "x < 30")
  case True
  assume "0 < x"
  with True have "\<lfloor>x / 60 + 1 / 2\<rfloor> = 0" by (simp add: floor_eq_iff)
  with \<open>0 < x\<close> show ?thesis by simp
next
  case False
  have "of_int \<lfloor>x / 60 + 1 / 2\<rfloor> \<le> x / 60 + 1 / 2" by (rule of_int_floor_le)
  with False show ?thesis by linarith
qed

lemma minutes_mass:
  assumes "list_all entry_ok m"
  shows "sum_list (map (\<lambda>item. fin_val (item_value item))
           (map to_minutes (filter (\<lambda>item. js_gt (item_value item) (Fin 0)) (map snd m))))
         \<le> entry_mass m"
  using assms
proof (induction m)
  case Nil
  then show ?case by (simp add: entry_mass_def)
next
  case (Cons e m)
  then have IH: "sum_list (map (\<lambda>item. fin_val (item_value item))
           (map to_minutes (filter (\<lambda>item. js_gt (item_value item) (Fin 0)) (map snd m))))
         \<le> entry_mass m" by simp
  show ?case
  proof (cases "js_gt (item_value (snd e)) (Fin 0)")
    case False
    with IH mag_nonneg [of "item_value (snd e)"] show ?thesis by (simp add: entry_mass_def)
  next
    case True
    then obtain x where x: "item_value (snd e) = Fin x" "0 < x"
      using Cons.prems by (cases "item_value (snd e)") (auto simp: js_gt_def entry_ok_def)
    then have "fin_val (item_value (to_minutes (snd e))) = of_int \<lfloor>x / 60 + 1 / 2\<rfloor>"
      by (simp add: to_minutes_def)
    with x True IH round_minutes_le [of x] show ?thesis
      by (simp add: entry_mass_def)
  qed
qed

lemma chart_total_bounded:
  assumes "\<forall>l\<in>set data. duration_seconds l \<noteq> Some PInf"
  shows "\<exists>t. chart_total (chart_items data) = Fin t \<and> 0 \<le> t \<and> t \<le> duration_mass data"
proof -
  let ?f = "\<lambda>item. fin_val (item_value item)"
  have w: "\<forall>item\<in>set (chart_items data). whole_minutes item"
    by (rule chart_items_whole [OF assms])
  then have t: "chart_total (chart_items data) = Fin (sum_list (map ?f (chart_items data)))"
    using foldl_total [OF w, of 0] by (simp add: chart_total_def)
  have "\<forall>y\<in>set (map ?f (chart_items data)). 0 \<le> y"
    using w by (auto simp: whole_minutes_def)
  then have "0 \<le> sum_list (map ?f (chart_items data))" by (intro sum_list_nonneg) auto
  moreover have "sum_list (map ?f (chart_items data)) \<le> entry_mass (activityMap data)"
    unfolding chart_items_def by (rule minutes_mass [OF activityMap_below_inf [OF assms]])
  ultimately show ?thesis using t entry_mass_activityMap [of data] by auto
qed

text \<open>
  Claim C9, as the code has it. Take a list of activity logs in which no duration is
  \<open>+\<infinity>\<close> and the sizes of the durations add up to at most \<open>2^1000\<close> seconds. Then no
  value of \<open>activityMap\<close> and no total of minutes exceeds \<open>2^1000\<close>, far inside the
  range of the doubles, so no sum overflows; and every percentage of the breakdown is a
  finite number between 0 and 100, never \<open>NaN\<close>, and is 0 when the total of the rounded
  minutes is zero.
\<close>

theorem chartData_percent_range:
  assumes "\<forall>l\<in>set data. duration_seconds l \<noteq> Some PInf"
    and "duration_mass data \<le> 2 ^ 1000"
  shows "(\<forall>e\<in>set (activityMap data). mag (item_value (snd e)) \<le> 2 ^ 1000)
    \<and> (\<exists>t. chart_total (chart_items data) = Fin t \<and> 0 \<le> t \<and> t \<le> 2 ^ 1000)
    \<and> (\<forall>item\<in>set (chartData data).
           \<exists>p. percent item = Fin p \<and> 0 \<le> p \<and> p \<le> 100
             \<and> (chart_total (chart_items data) = Fin 0 \<longrightarrow> p = 0))"
proof (intro conjI ballI)
  fix e
  assume "e \<in> set (activityMap data)"
  then have "mag (item_value (snd e)) \<le> entry_mass (activityMap data)"
    by (rule entry_le_mass)
  with entry_mass_activityMap [of data] assms(2)
  show "mag (item_value (snd e)) \<le> 2 ^ 1000" by linarith
next
  from chart_total_bounded [OF assms(1)] assms(2)
  show "\<exists>t. chart_total (chart_items data) = Fin t \<and> 0 \<le> t \<and> t \<le> 2 ^ 1000"
    by fastforce
next
  fix item
  assume "item \<in> set (chartData data)"
  then obtain c where c: "c \<in> set (chart_items data)"
    and item: "item = set_percent (chart_total (chart_items data)) c"
    by (auto simp: chartData_def Let_def)
  from item_le_total [OF chart_items_whole [OF assms(1)] c]
  obtain v t where "item_value c = Fin v" "chart_total (chart_items data) = Fin t"
    "0 \<le> v" "v \<le> t"
    by blast
  with item show "\<exists>p. percent item = Fin p \<and> 0 \<le> p \<and> p \<le> 100
             \<and> (chart_total (chart_items data) = Fin 0 \<longrightarrow> p = 0)"
    using set_percent_range [of c v t] by simp
qed

lemmas chart_defs =
  chartData_def chart_items_def chart_total_def set_percent_def to_minutes_def
  activityMap_def add_log_def log_type_def new_entry_def display_name_def nameMap_def
  inherited_keys_def toLowerCase_def toLowerCase_char_def toUpperCase_char_def

text \<open>Two minutes of YouTube and six of Gmail: 25 and 75 percent.\<close>

theorem chartData_percent_range_witness:
  "duration_seconds
     \<lparr>activity_type = Some ''YouTube'', duration_seconds = Some (Fin 120),
      co2_grams = Some (Fin 1)\<rparr> \<noteq> Some PInf
   \<and> duration_seconds
     \<lparr>activity_type = Some ''gmail'', duration_seconds = Some (Fin 360),
      co2_grams = None\<rparr> \<noteq> Some PInf
   \<and> duration_mass
       [\<lparr>activity_type = Some ''YouTube'', duration_seconds = Some (Fin 120),
         co2_grams = Some (Fin 1)\<rparr>,
        \<lparr>activity_type = Some ''gmail'', duration_seconds = Some (Fin 360),
         co2_grams = None\<rparr>] \<le> 2 ^ 1000
   \<and> (\<exists>p. percent (hd (chartData
       [\<lparr>activity_type = Some ''YouTube'', duration_seconds = Some (Fin 120),
         co2_grams = Some (Fin 1)\<rparr>,
        \<lparr>activity_type = Some ''gmail'', duration_seconds = Some (Fin 360),
         co2_grams = None\<rparr>])) = Fin p \<and> 0 \<le> p \<and> p \<le> 100)
   \<and> map percent (chartData
       [\<lparr>activity_type = Some ''YouTube'', duration_seconds = Some (Fin 120),
         co2_grams = Some (Fin 1)\<rparr>,
        \<lparr>activity_type = Some ''gmail'', duration_seconds = Some (Fin 360),
         co2_grams = None\<rparr>]) = [Fin 25, Fin 75]"
proof -
  let ?D = "[\<lparr>activity_type = Some ''YouTube'', duration_seconds = Some (Fin 120),
         co2_grams = Some (Fin 1)\<rparr>,
        \<lparr>activity_type = Some ''gmail'', duration_seconds = Some (Fin 360),
         co2_grams = None\<rparr>]"
  have h: "\<forall>l\<in>set ?D. duration_seconds l \<noteq> Some PInf" by simp
  have b: "duration_mass ?D \<le> 2 ^ 1000" by (simp add: duration_mass_def)
  have v: "map percent (chartData ?D) = [Fin 25, Fin 75]"
    by (simp add: chart_defs js_defs Let_def)
  then have "chartData ?D \<noteq> []" by auto
  then have "hd (chartData ?D) \<in> set (chartData ?D)" by simp
  with chartData_percent_range [OF h b] v b show ?thesis by fastforce
qed

text \<open>
  Against claim C9 as it is written: a log whose duration is \<open>+\<infinity>\<close> makes the total
  infinite, and its percentage is \<open>\<infinity> / \<infinity> * 100\<close>, which is \<open>NaN\<close>.
\<close>

theorem chartData_infinite_duration:
  "map percent (chartData
     [\<lparr>activity_type = Some ''youtube'', duration_seconds = Some PInf,
       co2_grams = None\<rparr>]) = [NaN]"
  by (simp add: chart_defs js_defs Let_def)

section \<open>Properties of the timer display\<close>

lemma digit_value_digit_char: "d < 10 \<Longrightarrow> digit_value (digit_char d) = Some d"
proof -
  assume "d < 10"
  then have "d \<in> {0, 1, 2, 3, 4, 5, 6, 7, 8, 9}" by auto
  then show ?thesis by (auto simp: digit_char_def digit_value_def)
qed

lemma digit_char_zero: "digit_char 0 = CHR ''0''"
  by (simp add: digit_char_def)

lemma digit_char_nonzero: "0 < d \<Longrightarrow> d < 10 \<Longrightarrow> digit_char d \<noteq> CHR ''0''"
proof -
  assume "0 < d" "d < 10"
  then have "d \<in> {1, 2, 3, 4, 5, 6, 7, 8, 9}" by auto
  then show ?thesis by (auto simp: digit_char_def)
qed

lemma read_digits_snoc:
  "read_digits acc (s @ [c]) =
     (case read_digits acc s of
        None \<Rightarrow> None
      | Some a \<Rightarrow> (case digit_value c of None \<Rightarrow> None | Some d \<Rightarrow> Some (10 * a + d)))"
  by (induction s arbitrary: acc) (auto split: option.splits)

lemma read_digits_toString: "read_digits 0 (toString n) = Some n"
proof (induction n rule: toString.induct)
  case (1 n)
  show ?case
  proof (cases "n < 10")
    case True
    then show ?thesis by (simp add: toString.simps [of n] digit_value_digit_char)
  next
    case False
    with 1 show ?thesis
      by (simp add: toString.simps [of n] read_digits_snoc digit_value_digit_char)
  qed
qed

lemma read_digits_zeros: "read_digits 0 (replicate k (CHR ''0'') @ s) = read_digits 0 s"
  by (induction k) (simp_all add: digit_value_def)

lemma toString_nonempty: "toString n \<noteq> []"
  by (simp add: toString.simps [of n])

lemma read_decimal_pad2: "read_decimal (pad2 n) = Some n"
  by (simp add: read_decimal_def pad2_def padStart_def toString_nonempty
      read_digits_zeros read_digits_toString)

lemma hd_toString: "0 < n \<Longrightarrow> hd (toString n) \<noteq> CHR ''0''"
proof (induction n rule: toString.induct)
  case (1 n)
  show ?case
  proof (cases "n < 10")
    case True
    with "1.prems" show ?thesis by (simp add: toString.simps [of n] digit_char_nonzero)
  next
    case False
    then have "0 < n div 10" by simp
    with False 1 show ?thesis by (simp add: toString.simps [of n] toString_nonempty)
  qed
qed

lemma length_toString_pos: "0 < length (toString n)"
  by (simp add: toString.simps [of n])

lemma length_toString_lt10: "n < 10 \<Longrightarrow> length (toString n) = 1"
  by (simp add: toString.simps [of n])

lemma length_toString_ge10:
  "10 \<le> n \<Longrightarrow> length (toString n) = Suc (length (toString (n div 10)))"
  by (simp add: toString.simps [of n])

lemma length_toString_lt100: "10 \<le> n \<Longrightarrow> n < 100 \<Longrightarrow> length (toString n) = 2"
  by (simp add: length_toString_ge10 length_toString_lt10)

lemma length_toString_ge100: "100 \<le> n \<Longrightarrow> 3 \<le> length (toString n)"
proof -
  assume n: "100 \<le> n"
  then have "10 \<le> n div 10" by simp
  then have "length (toString (n div 10)) = Suc (length (toString (n div 10 div 10)))"
    by (rule length_toString_ge10)
  moreover from n have "length (toString n) = Suc (length (toString (n div 10)))"
    by (intro length_toString_ge10) simp
  moreover have "0 < length (toString (n div 10 div 10))"
    by (rule length_toString_pos)
  ultimately show ?thesis by linarith
qed

lemma length_pad2: "(length (pad2 n) = 2) = (n < 100)"
proof (cases "n < 10")
  case True
  then show ?thesis by (simp add: pad2_def padStart_def length_toString_lt10)
next
  case False
  show ?thesis
  proof (cases "n < 100")
    case True
    with False show ?thesis by (simp add: pad2_def padStart_def length_toString_lt100)
  next
    case False
    then show ?thesis using length_toString_ge100 [of n] by (simp add: pad2_def padStart_def)
  qed
qed

lemma pad2_lt100: "n < 100 \<Longrightarrow> pad2 n = [digit_char (n div 10), digit_char (n mod 10)]"
proof (cases "n < 10")
  case True
  then show ?thesis
    by (simp add: pad2_def padStart_def toString.simps [of n] digit_char_zero)
next
  case False
  assume "n < 100"
  with False have "n div 10 < 10" by simp
  with False show ?thesis
    by (simp add: pad2_def padStart_def toString.simps [of n] toString.simps [of "n div 10"])
qed

lemma pad2_ge100: "100 \<le> n \<Longrightarrow> pad2 n = toString n"
  using length_toString_ge100 [of n] by (simp add: pad2_def padStart_def)

text \<open>
  Claim C10, as the code has it. For every whole number \<open>s\<close> of seconds up to
  \<open>Number.MAX_SAFE_INTEGER\<close>, \<open>formatTime s\<close> is the three fields \<open>HH = s div 3600\<close>,
  \<open>MM = (s mod 3600) div 60\<close> and \<open>SS = s mod 60\<close> with a colon between them, and the
  fields add up: \<open>HH * 3600 + MM * 60 + SS = s\<close>. Each field consists of decimal digits
  only and reads back as its number. The minutes and the seconds are always the two
  digits of their number, a leading zero included. So are the hours when \<open>s < 360000\<close>;
  from 100 hours on the hours field is the plain decimal numeral of \<open>HH\<close>, which has more
  than two digits and no leading zero. \<open>HH\<close> stays below \<open>10^21\<close>, where \<open>toString\<close>
  still prints all digits.
\<close>

theorem formatTime_decomposes:
  assumes "s \<le> MAX_SAFE_INTEGER"
  shows "formatTime s
       = pad2 (s div 3600) @ '':'' @ pad2 (s mod 3600 div 60) @ '':'' @ pad2 (s mod 60)
   \<and> (s div 3600) * 3600 + (s mod 3600 div 60) * 60 + s mod 60 = s
   \<and> s div 3600 < 10 ^ 21
   \<and> read_decimal (pad2 (s div 3600)) = Some (s div 3600)
   \<and> read_decimal (pad2 (s mod 3600 div 60)) = Some (s mod 3600 div 60)
   \<and> read_decimal (pad2 (s mod 60)) = Some (s mod 60)
   \<and> pad2 (s mod 3600 div 60)
       = [digit_char (s mod 3600 div 60 div 10), digit_char (s mod 3600 div 60 mod 10)]
   \<and> pad2 (s mod 60) = [digit_char (s mod 60 div 10), digit_char (s mod 60 mod 10)]
   \<and> pad2 (s div 3600) =
       (if s < 360000 then [digit_char (s div 3600 div 10), digit_char (s div 3600 mod 10)]
        else toString (s div 3600))
   \<and> (length (pad2 (s div 3600)) = 2) = (s < 360000)
   \<and> (360000 \<le> s \<longrightarrow> hd (pad2 (s div 3600)) \<noteq> CHR ''0'')"
proof -
  have f: "formatTime s
      = pad2 (s div 3600) @ '':'' @ pad2 (s mod 3600 div 60) @ '':'' @ pad2 (s mod 60)"
    by (simp add: formatTime_def)
  have r1: "read_decimal (pad2 (s div 3600)) = Some (s div 3600)"
    and r2: "read_decimal (pad2 (s mod 3600 div 60)) = Some (s mod 3600 div 60)"
    and r3: "read_decimal (pad2 (s mod 60)) = Some (s mod 60)"
    by (rule read_decimal_pad2)+
  have m: "s mod 3600 div 60 < 100" and ss: "s mod 60 < 100"
    and h: "(s div 3600 < 100) = (s < 360000)"
    by (simp_all add: div_less_iff_less_mult less_mult_imp_div_less)
  have sum: "(s div 3600) * 3600 + (s mod 3600 div 60) * 60 + s mod 60 = s"
  proof -
    have "s mod 3600 mod 60 = s mod 60" by (simp add: mod_mod_cancel)
    then have "(s mod 3600 div 60) * 60 + s mod 60 = s mod 3600"
      using div_mult_mod_eq [of "s mod 3600" 60] by simp
    then show ?thesis using div_mult_mod_eq [of s 3600] by linarith
  qed
  have "s div 3600 \<le> s" by simp
  also have "s < 10 ^ 21" using assms by (simp add: MAX_SAFE_INTEGER_def)
  finally have big: "s div 3600 < 10 ^ 21" .
  have hh: "pad2 (s div 3600) =
       (if s < 360000 then [digit_char (s div 3600 div 10), digit_char (s div 3600 mod 10)]
        else toString (s div 3600))"
    using h pad2_lt100 [of "s div 3600"] pad2_ge100 [of "s div 3600"] by auto
  have z: "360000 \<le> s \<longrightarrow> hd (pad2 (s div 3600)) \<noteq> CHR ''0''"
  proof
    assume "360000 \<le> s"
    with h have "100 \<le> s div 3600" by simp
    then show "hd (pad2 (s div 3600)) \<noteq> CHR ''0''"
      using hd_toString [of "s div 3600"] by (simp add: pad2_ge100)
  qed
  from h have len: "(length (pad2 (s div 3600)) = 2) = (s < 360000)"
    by (simp add: length_pad2)
  note p2 = pad2_lt100 [OF m] and p3 = pad2_lt100 [OF ss]
  show ?thesis
    by (intro conjI) (fact f sum big r1 r2 r3 p2 p3 hh len z)+
qed

text \<open>One hour, one minute and one second.\<close>

theorem formatTime_decomposes_witness:
  "(3661::nat) \<le> MAX_SAFE_INTEGER \<and> formatTime 3661 = ''01:01:01''
   \<and> read_decimal ''01'' = Some 1"
  using formatTime_decomposes [of 3661]
  by (auto simp: MAX_SAFE_INTEGER_def digit_char_def)

text \<open>
  Against claim C10 as it is written: at 100 hours the hours field has three digits, and
  the string has nine characters. (At \<open>3600 * 2^70\<close> seconds, outside this model, the
  code prints the hours with an exponent.)
\<close>

theorem formatTime_100_hours:
  "formatTime 360000 = ''100:00:00'' \<and> length (formatTime 360000) = 9"
  by (simp add: formatTime_def pad2_def padStart_def toString.simps digit_char_def)

end
